theory Spec2Isabelle
  imports Main "HOL-Library.Sublist"
begin

section \<open>Go values\<close>

text \<open>
  A Go \<^verbatim>\<open>string\<close> is a sequence of bytes, here a \<^typ>\<open>string\<close> (a list of 8-bit
  characters). A Go \<^verbatim>\<open>error\<close> is a value carrying a message and, when it was built
  by \<^verbatim>\<open>fmt.Errorf\<close> with the verb \<^verbatim>\<open>%w\<close>, the error it wraps. \<open>External\<close> is an
  error handed back by the SDK or a library, of which only the message is known. A Go
  function returning \<^verbatim>\<open>(T, error)\<close> returns a pair whose second component is \<open>None\<close>
  for \<^verbatim>\<open>nil\<close>.
\<close>

datatype error =
    External string
  | Errorf string
  | Wrapf string error

fun Error :: "error \<Rightarrow> string" where
  "Error (External s) = s"
| "Error (Errorf s) = s"
| "Error (Wrapf s e) = s"

fun Unwrap :: "error \<Rightarrow> error option" where
  "Unwrap (External s) = None"
| "Unwrap (Errorf s) = None"
| "Unwrap (Wrapf s e) = Some e"

text \<open>The verb \<^verbatim>\<open>%d\<close> of package fmt: the decimal digits, with a minus sign first.\<close>

fun digits :: "nat \<Rightarrow> string" where
  "digits n =
     (if n < 10 then [char_of (48 + n)]
      else digits (n div 10) @ [char_of (48 + n mod 10)])"

definition show_int :: "int \<Rightarrow> string" where
  "show_int i = (if i < 0 then CHR ''-'' # digits (nat (- i)) else digits (nat i))"

text \<open>
  \<^verbatim>\<open>strings.TrimSpace\<close> removes the leading and the trailing white space of a string,
  white space being the runes of \<^verbatim>\<open>unicode.IsSpace\<close>: tab, line feed, vertical tab,
  form feed, carriage return, space, U+0085, U+00A0, U+1680, U+2000 to U+200A, U+2028,
  U+2029, U+202F, U+205F and U+3000. \<open>space_runes\<close> lists their UTF-8 encodings. A byte
  sequence that is not the encoding of a rune decodes to U+FFFD, which is no white
  space, so trimming stops there.
\<close>

definition space_runes :: "string list" where
  "space_runes =
    [[CHR 0x09], [CHR 0x0A], [CHR 0x0B], [CHR 0x0C], [CHR 0x0D], [CHR 0x20],
     [CHR 0xC2, CHR 0x85], [CHR 0xC2, CHR 0xA0],
     [CHR 0xE1, CHR 0x9A, CHR 0x80],
     [CHR 0xE2, CHR 0x80, CHR 0x80], [CHR 0xE2, CHR 0x80, CHR 0x81],
     [CHR 0xE2, CHR 0x80, CHR 0x82], [CHR 0xE2, CHR 0x80, CHR 0x83],
     [CHR 0xE2, CHR 0x80, CHR 0x84], [CHR 0xE2, CHR 0x80, CHR 0x85],
     [CHR 0xE2, CHR 0x80, CHR 0x86], [CHR 0xE2, CHR 0x80, CHR 0x87],
     [CHR 0xE2, CHR 0x80, CHR 0x88], [CHR 0xE2, CHR 0x80, CHR 0x89],
     [CHR 0xE2, CHR 0x80, CHR 0x8A],
     [CHR 0xE2, CHR 0x80, CHR 0xA8], [CHR 0xE2, CHR 0x80, CHR 0xA9],
     [CHR 0xE2, CHR 0x80, CHR 0xAF],
     [CHR 0xE2, CHR 0x81, CHR 0x9F],
     [CHR 0xE3, CHR 0x80, CHR 0x80]]"

definition leading_space :: "string \<Rightarrow> nat" where
  "leading_space s =
     (case find (\<lambda>p. prefix p s) space_runes of None \<Rightarrow> 0 | Some p \<Rightarrow> length p)"

definition trailing_space :: "string \<Rightarrow> nat" where
  "trailing_space s =
     (case find (\<lambda>p. suffix p s) space_runes of None \<Rightarrow> 0 | Some p \<Rightarrow> length p)"

function TrimLeft :: "string \<Rightarrow> string" where
  "TrimLeft s = (if leading_space s = 0 then s else TrimLeft (drop (leading_space s) s))"
  by pat_completeness auto
termination
proof (relation "measure length")
  show "wf (measure length)" by simp
next
  fix s :: string
  assume "leading_space s \<noteq> 0"
  moreover have "leading_space s \<le> length s"
    by (auto simp: leading_space_def prefix_length_le split: option.splits
        dest!: find_Some_iff[THEN iffD1])
  ultimately show "(drop (leading_space s) s, s) \<in> measure length" by simp
qed

function TrimRight :: "string \<Rightarrow> string" where
  "TrimRight s =
     (if trailing_space s = 0 then s else TrimRight (take (length s - trailing_space s) s))"
  by pat_completeness auto
termination
proof (relation "measure length")
  show "wf (measure length)" by simp
next
  fix s :: string
  assume "trailing_space s \<noteq> 0"
  moreover have "trailing_space s \<le> length s"
    by (auto simp: trailing_space_def suffix_length_le split: option.splits
        dest!: find_Some_iff[THEN iffD1])
  ultimately show "(take (length s - trailing_space s) s, s) \<in> measure length" by simp
qed

definition TrimSpace :: "string \<Rightarrow> string" where
  "TrimSpace s = TrimRight (TrimLeft s)"

section \<open>The container SDK, as far as the modules use it\<close>

text \<open>
  Directories, secrets and files are handles. A file is identified with what the query
  \<^verbatim>\<open>Contents\<close> answers for it. A container is a value: the chain of build steps that
  lead to it, oldest first; \<^verbatim>\<open>WithExec\<close> appends a command and runs nothing by itself.
  The engine is the record \<open>sandbox\<close>: what the queries \<^verbatim>\<open>Stdout\<close>, \<^verbatim>\<open>Stderr\<close> and
  \<^verbatim>\<open>ExitCode\<close> answer for a container, namely the outcome of the last command of its
  chain. Every answer may depend on the whole chain, and every query may fail. An exit
  code is a Go \<^verbatim>\<open>int\<close>, here an integer: it is compared with 0 and printed, never
  computed with.
\<close>

datatype Directory = DirectoryID string

datatype Secret = SecretID string

datatype File = File (Contents: "string \<times> error option")

datatype ReturnType = ReturnTypeSuccess | ReturnTypeAny

datatype step =
    WolfiContainer "string list"
  | EnvVariable string string
  | SecretVariable string Secret
  | Workdir string
  | MountedDirectory string Directory
  | Exec "string list" ReturnType

type_synonym container = "step list"

record sandbox =
  Container_Stdout :: "container \<Rightarrow> string \<times> error option"
  Container_Stderr :: "container \<Rightarrow> string \<times> error option"
  Container_ExitCode :: "container \<Rightarrow> int \<times> error option"

section \<open>Module glow\<close>

text \<open>
  \<^verbatim>\<open>glamour.Render\<close> belongs to a library outside the repository, so it is a parameter,
  and nothing is assumed about it, not even that it is a function of its arguments:
  \<open>Render str style r\<close> reads "the call \<^verbatim>\<open>Render(str, style)\<close> can return \<open>r\<close>".
  The methods of \<^verbatim>\<open>Glow\<close> (a struct without fields) are then relations between
  their arguments and their results too.
\<close>

type_synonym glamour = "string \<Rightarrow> string \<Rightarrow> string \<times> error option \<Rightarrow> bool"

definition DisplayMarkdown :: "glamour \<Rightarrow> string \<Rightarrow> string \<times> error option \<Rightarrow> bool" where
  "DisplayMarkdown Render str r = Render str ''dark'' r"

definition ReadMe :: "glamour \<Rightarrow> File \<Rightarrow> string \<times> error option \<Rightarrow> bool" where
  "ReadMe Render file r =
     (let (c, err) = Contents file in
      case err of
        Some e \<Rightarrow> r = ('''', Some (Wrapf (''could not read README.md: '' @ Error e) e))
      | None \<Rightarrow> DisplayMarkdown Render c r)"

section \<open>Module signoff\<close>

record Signoff =
  Sources :: Directory
  Token :: Secret
  Container :: container
  CheckName :: string

definition base :: container where
  "base =
     [WolfiContainer [''gh'', ''git''],
      EnvVariable ''GH_PROMPT_DISABLED'' ''true'',
      EnvVariable ''GH_NO_UPDATE_NOTIFIER'' ''true'',
      Exec [''gh'', ''auth'', ''setup-git'', ''--force'', ''--hostname'', ''github.com'']
        ReturnTypeSuccess]"

text \<open>\<open>now\<close> is \<^verbatim>\<open>time.Now().Format(time.RFC3339Nano)\<close> at the time of the call.\<close>

definition container :: "string \<Rightarrow> Signoff \<Rightarrow> container" where
  "container now m =
     base @
     [EnvVariable ''CACHE_BUSTER'' now,
      SecretVariable ''GITHUB_TOKEN'' (Token m),
      Workdir ''/work/repo'',
      MountedDirectory ''/work/repo'' (Sources m)]"

text \<open>The container of the struct that \<^verbatim>\<open>New\<close> builds is \<^verbatim>\<open>nil\<close> at first, here the empty chain.\<close>

definition New :: "string \<Rightarrow> Directory \<Rightarrow> Secret \<Rightarrow> string \<Rightarrow> Signoff" where
  "New now sources token checkName =
     (let s = \<lparr>Sources = sources, Token = token, Container = [], CheckName = checkName\<rparr>
      in s\<lparr>Container := container now s\<rparr>)"

text \<open>
  The methods have a pointer receiver and \<^verbatim>\<open>WithExec\<close> assigns to \<^verbatim>\<open>m.Container\<close>, so
  every method that runs a command returns the receiver as it leaves it, beside its Go
  result.
\<close>

definition WithExec :: "string list \<Rightarrow> Signoff \<Rightarrow> Signoff" where
  "WithExec args m = m\<lparr>Container := Container m @ [Exec args ReturnTypeAny]\<rparr>"

definition WithGitExec :: "string list \<Rightarrow> Signoff \<Rightarrow> Signoff" where
  "WithGitExec args m = WithExec (''git'' # args) m"

definition WithGhExec :: "string list \<Rightarrow> Signoff \<Rightarrow> Signoff" where
  "WithGhExec args m = WithExec (''gh'' # args) m"

definition Stdout :: "sandbox \<Rightarrow> Signoff \<Rightarrow> string \<times> error option" where
  "Stdout sb m = Container_Stdout sb (Container m)"

definition Stderr :: "sandbox \<Rightarrow> Signoff \<Rightarrow> string \<times> error option" where
  "Stderr sb m = Container_Stderr sb (Container m)"

definition ExitCode :: "sandbox \<Rightarrow> Signoff \<Rightarrow> int \<times> error option" where
  "ExitCode sb m = Container_ExitCode sb (Container m)"

definition Out :: "sandbox \<Rightarrow> Signoff \<Rightarrow> string \<times> error option" where
  "Out sb m =
     (let (stdOut, err) = Container_Stdout sb (Container m) in
      if err \<noteq> None then ('''', err)
      else
        let (stdErr, err) = Container_Stderr sb (Container m) in
        if err \<noteq> None then ('''', err)
        else
          let out = stdOut @ [CHR 0x0A] @ stdErr;
              (exitCode, err) = Container_ExitCode sb (Container m) in
          if err \<noteq> None then ('''', err)
          else if exitCode \<noteq> 0 then (out, Some (Errorf (''exit code '' @ show_int exitCode)))
          else (out, None))"

subsection \<open>The cleanliness gate\<close>

text \<open>
  The three git commands. \<open>CHR 0x40\<close> is the at sign: the references are the push
  reference of the current branch and the range from it to the head.
\<close>

definition git_status :: "string list" where
  "git_status = [''status'', ''--porcelain'']"

definition git_push_ref :: "string list" where
  "git_push_ref = [''rev-parse'', ''--abbrev-ref'', CHR 0x40 # ''{push}'']"

definition git_unpushed :: "string list" where
  "git_unpushed = [''log'', CHR 0x40 # ''{push}..'']"

definition IsClean :: "sandbox \<Rightarrow> Signoff \<Rightarrow> error option \<times> Signoff" where
  "IsClean sb m =
     (let m1 = WithGitExec git_status m;
          (out, err) = Stdout sb m1 in
      if err \<noteq> None \<or> out \<noteq> '''' then
        (Some (Errorf ''found uncommitted changes in the repo''), m1)
      else
        let m2 = WithGitExec git_push_ref m1;
            (exitCode, err) = ExitCode sb m2 in
        if err \<noteq> None \<or> exitCode \<noteq> 0 then
          (Some (Errorf ''no tracking branch found''), m2)
        else
          let m3 = WithGitExec git_unpushed m2;
              (out, err) = Stdout sb m3 in
          if err \<noteq> None \<or> out \<noteq> '''' then
            (Some (Errorf ''found unpushed commits in the repo''), m3)
          else (None, m3))"

subsection \<open>Queries\<close>

definition Sha :: "sandbox \<Rightarrow> Signoff \<Rightarrow> (string \<times> error option) \<times> Signoff" where
  "Sha sb m =
     (let m1 = WithGitExec [''rev-parse'', ''HEAD''] m;
          (out, err) = Stdout sb m1 in
      if err \<noteq> None then (('''', err), m1) else ((TrimSpace out, None), m1))"

definition WhoIs :: "sandbox \<Rightarrow> Signoff \<Rightarrow> (string \<times> error option) \<times> Signoff" where
  "WhoIs sb m =
     (let m1 = WithGhExec [''api'', ''user'', ''--jq'', ''.login''] m;
          (out, err) = Out sb m1 in
      if err \<noteq> None then (('''', err), m1) else ((TrimSpace out, None), m1))"

definition DefaultBranch :: "sandbox \<Rightarrow> Signoff \<Rightarrow> (string \<times> error option) \<times> Signoff" where
  "DefaultBranch sb m =
     (let m1 = WithGhExec [''api'', ''repos/:owner/:repo'', ''--jq'', ''.default_branch''] m
      in (Stdout sb m1, m1))"

definition pulls_filter :: "string \<Rightarrow> string" where
  \<open>pulls_filter defaultBranch =
     ''.[] | select(.state == "open") | select(.base.ref == "'' @ defaultBranch @
     ''") | .html_url''\<close>

definition PullRequest :: "sandbox \<Rightarrow> Signoff \<Rightarrow> (string \<times> error option) \<times> Signoff" where
  "PullRequest sb m =
     (let ((defaultBranch, err), m1) = DefaultBranch sb m in
      if err \<noteq> None then (('''', err), m1)
      else
        let m2 = WithGhExec
                   [''api'', ''repos/:owner/:repo/pulls'', ''--jq'', pulls_filter defaultBranch]
                   m1;
            (out, err) = Stdout sb m2 in
        if err \<noteq> None then (('''', err), m2) else ((TrimSpace out, None), m2))"

definition OpenPR :: "sandbox \<Rightarrow> bool \<Rightarrow> Signoff \<Rightarrow> (string \<times> error option) \<times> Signoff" where
  "OpenPR sb verbose m =
     (let fill = (if verbose then ''--fill-verbose'' else ''--fill'');
          m1 = WithGhExec [''pr'', ''create'', fill] m
      in (Out sb m1, m1))"

subsection \<open>Signing off\<close>

text \<open>
  Besides the error and the receiver, \<^verbatim>\<open>Create\<close>, \<^verbatim>\<open>Install\<close> and \<^verbatim>\<open>Uninstall\<close>
  return the bytes they print on the standard output of the process. \<open>check_mark\<close> is
  the UTF-8 encoding of U+2713. \<open>status_post\<close> is the argument list that \<^verbatim>\<open>Create\<close>
  hands to \<^verbatim>\<open>WithGhExec\<close>.
\<close>

definition check_mark :: string where
  "check_mark = [CHR 0xE2, CHR 0x9C, CHR 0x93]"

definition status_post :: "string \<Rightarrow> string \<Rightarrow> string \<Rightarrow> string list" where
  \<open>status_post sha checkName user =
     [''api'',
      ''--method'', ''POST'',
      ''repos/:owner/:repo/statuses/'' @ sha,
      ''-f'', ''state=success'',
      ''-f'', ''context='' @ checkName,
      ''-f'', ''description="'' @ user @ '' signed off"'']\<close>

definition Create :: "sandbox \<Rightarrow> Signoff \<Rightarrow> error option \<times> string \<times> Signoff" where
  "Create sb m =
     (let (err, m1) = IsClean sb m in
      if err \<noteq> None then (err, '''', m1)
      else
        let ((sha, err), m2) = Sha sb m1 in
        if err \<noteq> None then (err, '''', m2)
        else
          let ((user, err), m3) = WhoIs sb m2 in
          if err \<noteq> None then (err, '''', m3)
          else
            let m4 = WithGhExec (status_post sha (CheckName m3) user) m3;
                (out, err) = Out sb m4 in
            case err of
              Some e \<Rightarrow> (Some (Wrapf (out @ '': '' @ Error e) e), '''', m4)
            | None \<Rightarrow> (None, check_mark @ '' Signed off on '' @ sha @ [CHR 0x0A], m4))"

subsection \<open>Branch protection\<close>

text \<open>
  \<open>quote\<close> is the verb \<^verbatim>\<open>%q\<close> of package fmt (\<^verbatim>\<open>strconv.Quote\<close>), a parameter: it
  decides the text of two messages and nothing else.
\<close>

definition protection_path :: "string \<Rightarrow> string" where
  "protection_path branch = ''/repos/:owner/:repo/branches/'' @ branch @ ''/protection''"

definition protect :: "string \<Rightarrow> string \<Rightarrow> string list" where
  "protect branch checkName =
     [''api'',
      protection_path branch,
      ''--method'', ''PUT'',
      ''-H'', ''Accept: application/vnd.github+json'',
      ''-H'', ''X-GitHub-Api-Version: 2022-11-28'',
      ''--field'', ''required_status_checks[strict]=false'',
      ''--field'', ''required_status_checks[contexts][]='' @ checkName,
      ''--field'', ''enforce_admins=null'',
      ''--field'', ''required_pull_request_reviews=null'',
      ''--field'', ''restrictions=null'']"

definition unprotect :: "string \<Rightarrow> string list" where
  "unprotect branch = [''api'', protection_path branch, ''--method'', ''DELETE'']"

definition Install ::
  "(string \<Rightarrow> string) \<Rightarrow> sandbox \<Rightarrow> string \<Rightarrow> Signoff \<Rightarrow> error option \<times> string \<times> Signoff" where
  "Install quote sb branch m =
     (let ((branch, err), m1) =
            (if branch = '''' then DefaultBranch sb m else ((branch, None), m)) in
      case err of
        Some e \<Rightarrow> (Some (Wrapf (''could not get the default branch: '' @ Error e) e), '''', m1)
      | None \<Rightarrow>
          if branch = '''' then
            (Some (Errorf ''could not install without a branch name''), '''', m1)
          else
            let m2 = WithGhExec (protect branch (CheckName m1)) m1;
                (out, err) = Out sb m2 in
            case err of
              Some e \<Rightarrow>
                (Some (Wrapf (''could not install signoff check '' @ quote (CheckName m2) @
                         '' to branch '' @ quote branch @ '': '' @ Error e @ [CHR 0x0A] @ out) e),
                 '''', m2)
            | None \<Rightarrow>
                (None,
                 check_mark @ '' GitHub '' @ CheckName m2 @
                   '' branch now requires signoff on check '' @ quote branch,
                 m2))"

definition Uninstall ::
  "(string \<Rightarrow> string) \<Rightarrow> sandbox \<Rightarrow> string \<Rightarrow> Signoff \<Rightarrow> error option \<times> string \<times> Signoff" where
  "Uninstall quote sb branch m =
     (let ((branch, err), m1) =
            (if branch = '''' then DefaultBranch sb m else ((branch, None), m)) in
      case err of
        Some e \<Rightarrow> (Some (Wrapf (''could not get the default branch: '' @ Error e) e), '''', m1)
      | None \<Rightarrow>
          if branch = '''' then
            (Some (Errorf ''could not uninstall without a branch name''), '''', m1)
          else
            let m2 = WithGhExec (unprotect branch) m1;
                (out, err) = Out sb m2 in
            case err of
              Some e \<Rightarrow>
                (Some (Wrapf (''could not uninstall branch protection for branch '' @
                         quote branch @ '': '' @ Error e @ [CHR 0x0A] @ out) e),
                 '''', m2)
            | None \<Rightarrow>
                (None,
                 check_mark @ '' GitHub '' @ CheckName m2 @
                   '' branch no longer requires signoff'',
                 m2))"

section \<open>Commands and conditions named in the statements\<close>

text \<open>The step that \<^verbatim>\<open>WithGitExec\<close> and \<^verbatim>\<open>WithGhExec\<close> append for an argument list.\<close>

definition git_exec :: "string list \<Rightarrow> step" where
  "git_exec args = Exec (''git'' # args) ReturnTypeAny"

definition gh_exec :: "string list \<Rightarrow> step" where
  "gh_exec args = Exec (''gh'' # args) ReturnTypeAny"

text \<open>
  The three conditions of the cleanliness check, for a session whose container is \<open>c\<close>:
  the status of the working tree is read without error and is empty; then the push
  reference resolves with exit code 0; then the log of the commits beyond it is read
  without error and is empty. Each one is what the engine answers for the command run
  after the commands before it.
\<close>

definition no_uncommitted_changes :: "sandbox \<Rightarrow> container \<Rightarrow> bool" where
  "no_uncommitted_changes sb c =
     (Container_Stdout sb (c @ [git_exec git_status]) = ('''', None))"

definition has_tracking_branch :: "sandbox \<Rightarrow> container \<Rightarrow> bool" where
  "has_tracking_branch sb c =
     (Container_ExitCode sb (c @ [git_exec git_status, git_exec git_push_ref]) = (0, None))"

definition no_unpushed_commits :: "sandbox \<Rightarrow> container \<Rightarrow> bool" where
  "no_unpushed_commits sb c =
     (Container_Stdout sb
        (c @ [git_exec git_status, git_exec git_push_ref, git_exec git_unpushed]) = ('''', None))"

text \<open>
  A step posts a commit status when it runs \<^verbatim>\<open>gh api --method POST\<close> on a path of the
  statuses endpoint; it is a branch protection request when it runs \<^verbatim>\<open>gh api\<close> on the
  protection path of some branch.
\<close>

fun is_status_post :: "step \<Rightarrow> bool" where
  "is_status_post (Exec (g # a # f # p # path # args) rt) =
     (g = ''gh'' \<and> a = ''api'' \<and> f = ''--method'' \<and> p = ''POST'' \<and>
      prefix ''repos/:owner/:repo/statuses/'' path)"
| "is_status_post _ = False"

fun is_protection_request :: "step \<Rightarrow> bool" where
  "is_protection_request (Exec (g # a # path # args) rt) =
     (g = ''gh'' \<and> a = ''api'' \<and> prefix ''/repos/:owner/:repo/branches/'' path \<and>
      suffix ''/protection'' path)"
| "is_protection_request _ = False"

definition default_branch_query :: "string list" where
  "default_branch_query = [''api'', ''repos/:owner/:repo'', ''--jq'', ''.default_branch'']"

section \<open>Example sessions\<close>

text \<open>
  A scripted engine answers for a container by the arguments of the last command of its
  chain: standard output, standard error and exit code as the script lists them, and
  empty output with exit code 0 for a command the script leaves out. No query fails.
\<close>

definition reply ::
  "(string list \<times> string \<times> string \<times> int) list \<Rightarrow> container \<Rightarrow> string \<times> string \<times> int" where
  "reply script c =
     (case rev c of
        Exec args rt # _ \<Rightarrow>
          (case map_of script args of Some r \<Rightarrow> r | None \<Rightarrow> ('''', '''', 0))
      | _ \<Rightarrow> ('''', '''', 0))"

definition scripted :: "(string list \<times> string \<times> string \<times> int) list \<Rightarrow> sandbox" where
  "scripted script =
     \<lparr>Container_Stdout = (\<lambda>c. (fst (reply script c), None)),
      Container_Stderr = (\<lambda>c. (fst (snd (reply script c)), None)),
      Container_ExitCode = (\<lambda>c. (snd (snd (reply script c)), None))\<rparr>"

definition repo :: Signoff where
  "repo = New ''2024-05-01T10:00:00Z'' (DirectoryID ''src'') (SecretID ''token'') ''signoff''"

definition github :: "(string list \<times> string \<times> string \<times> int) list" where
  "github =
     [([''git'', ''rev-parse'', ''HEAD''], (''abc123\<newline>'', '''', 0)),
      ([''gh'', ''api'', ''user'', ''--jq'', ''.login''], (''alice\<newline>'', '''', 0)),
      (''gh'' # default_branch_query, (''main\<newline>'', '''', 0))]"

definition silent_session :: sandbox where
  "silent_session = scripted []"

definition clean_session :: sandbox where
  "clean_session = scripted github"

definition dirty_session :: sandbox where
  "dirty_session =
     scripted ((''git'' # git_status, ('' M main.go\<newline>'', '''', 0)) # github)"

definition untracked_session :: sandbox where
  "untracked_session =
     scripted ((''git'' # git_push_ref, ('''', ''fatal: no upstream configured'', 128)) # github)"

definition rejecting_session :: sandbox where
  "rejecting_session =
     scripted ((''gh'' # status_post ''abc123'' ''signoff'' ''alice'',
                (''Bad credentials'', ''gh: HTTP 401'', 1)) # github)"

text \<open>
  A hosting engine stands for a repository with a default branch and a list of pull
  requests. It answers the query of the default branch with the name and a line feed,
  as \<^verbatim>\<open>gh\<close> prints the result of a jq filter. It answers the list of pull requests
  under a filter of the form that \<open>PullRequest\<close> builds with the URL, and a line feed,
  of every pull request that is open and whose base reference is the string the filter
  compares with. Every other command prints nothing; every exit code is 0 and no query
  fails. In \<open>feature_session\<close> the default branch is \<^verbatim>\<open>main\<close>, the clone is on the
  branch \<^verbatim>\<open>feature-a\<close>, and the one pull request is the open one from \<^verbatim>\<open>feature-a\<close>
  into \<^verbatim>\<open>main\<close>.
\<close>

record pull =
  pull_state :: string
  base_ref :: string
  head_ref :: string
  html_url :: string

definition pulls_reply :: "pull list \<Rightarrow> string \<Rightarrow> string" where
  "pulls_reply prs f =
     concat (map (\<lambda>p. html_url p @ ''\<newline>'')
       (filter (\<lambda>p. pull_state p = ''open'' \<and> f = pulls_filter (base_ref p)) prs))"

definition hosting_reply :: "string \<Rightarrow> pull list \<Rightarrow> string list \<Rightarrow> string" where
  "hosting_reply branch prs args =
     (if args = ''gh'' # default_branch_query then branch @ ''\<newline>''
      else if length args = 5 \<and>
              take 4 args = [''gh'', ''api'', ''repos/:owner/:repo/pulls'', ''--jq'']
      then pulls_reply prs (last args)
      else '''')"

definition hosting :: "string \<Rightarrow> pull list \<Rightarrow> sandbox" where
  "hosting branch prs =
     \<lparr>Container_Stdout =
        (\<lambda>c. case rev c of
                Exec args rt # _ \<Rightarrow> (hosting_reply branch prs args, None)
              | _ \<Rightarrow> ('''', None)),
      Container_Stderr = (\<lambda>c. ('''', None)),
      Container_ExitCode = (\<lambda>c. (0, None))\<rparr>"

definition feature_pulls :: "pull list" where
  "feature_pulls =
     [\<lparr>pull_state = ''open'', base_ref = ''main'', head_ref = ''feature-a'',
       html_url = ''https://github.com/eunomie/daggerverse/pull/7''\<rparr>]"

definition feature_session :: sandbox where
  "feature_session = hosting ''main'' feature_pulls"

definition dquote :: "string \<Rightarrow> string" where
  "dquote s = CHR 0x22 # s @ [CHR 0x22]"

definition echo_render :: glamour where
  "echo_render str style r = (r = (style @ '': '' @ str, None))"

definition readme_file :: File where
  "readme_file = File (''# daggerverse'', None)"

definition missing_file :: File where
  "missing_file = File ('''', Some (External ''no such file''))"

section \<open>What the commands do to the receiver\<close>

lemma WithGitExec_eq: "WithGitExec args m = m\<lparr>Container := Container m @ [git_exec args]\<rparr>"
  by (simp add: WithGitExec_def WithExec_def git_exec_def)

lemma WithGhExec_eq: "WithGhExec args m = m\<lparr>Container := Container m @ [gh_exec args]\<rparr>"
  by (simp add: WithGhExec_def WithExec_def gh_exec_def)

section \<open>The combined output of a command\<close>

text \<open>
  C10. \<open>Out\<close> asks the engine for the standard output, the standard error and the exit
  code of the receiver's container. It returns an error exactly when one of the three
  queries fails or the exit code is not 0. When no query fails it returns the standard
  output, a line feed and the standard error, also when the exit code is not 0, and the
  error then is "exit code" with the code. A failing query gives the empty string and
  the error of the query.
\<close>

theorem Out_combined:
  assumes "Container_Stdout sb (Container m) = (stdOut, e1)"
    and "Container_Stderr sb (Container m) = (stdErr, e2)"
    and "Container_ExitCode sb (Container m) = (exitCode, e3)"
  shows "(snd (Out sb m) \<noteq> None) = (e1 \<noteq> None \<or> e2 \<noteq> None \<or> e3 \<noteq> None \<or> exitCode \<noteq> 0) \<and>
    (e1 = None \<and> e2 = None \<and> e3 = None \<longrightarrow>
       fst (Out sb m) = stdOut @ [CHR 0x0A] @ stdErr \<and>
       snd (Out sb m) =
         (if exitCode \<noteq> 0 then Some (Errorf (''exit code '' @ show_int exitCode)) else None)) \<and>
    (e1 \<noteq> None \<longrightarrow> Out sb m = ('''', e1)) \<and>
    (e1 = None \<and> e2 \<noteq> None \<longrightarrow> Out sb m = ('''', e2)) \<and>
    (e1 = None \<and> e2 = None \<and> e3 \<noteq> None \<longrightarrow> Out sb m = ('''', e3))"
  using assms by (auto simp: Out_def Let_def)

theorem Out_combined_witness:
  "Out rejecting_session
     (WithGhExec (status_post ''abc123'' ''signoff'' ''alice'') repo) =
   (''Bad credentials'' @ [CHR 0x0A] @ ''gh: HTTP 401'', Some (Errorf ''exit code 1''))"
proof -
  let ?m = "WithGhExec (status_post ''abc123'' ''signoff'' ''alice'') repo"
  have 1: "Container_Stdout rejecting_session (Container ?m) = (''Bad credentials'', None)"
    by (simp add: rejecting_session_def scripted_def reply_def WithGhExec_eq gh_exec_def)
  have 2: "Container_Stderr rejecting_session (Container ?m) = (''gh: HTTP 401'', None)"
    by (simp add: rejecting_session_def scripted_def reply_def WithGhExec_eq gh_exec_def)
  have 3: "Container_ExitCode rejecting_session (Container ?m) = (1, None)"
    by (simp add: rejecting_session_def scripted_def reply_def WithGhExec_eq gh_exec_def)
  have "show_int 1 = ''1''"
    by code_simp
  with Out_combined [OF 1 2 3] show ?thesis
    by (simp add: prod_eq_iff)
qed

section \<open>The cleanliness check\<close>

text \<open>
  C1. \<open>IsClean\<close> checks the working tree, then the tracking branch, then the unpushed
  commits. It returns no error exactly when the three conditions hold. Otherwise it
  returns the message of the first condition that fails, and the receiver's container
  then ends with the command of that condition: the commands of the later conditions
  were never added to it. The three messages differ from each other.
\<close>

theorem IsClean_gate:
  "(fst (IsClean sb m) = None) =
     (no_uncommitted_changes sb (Container m) \<and> has_tracking_branch sb (Container m) \<and>
      no_unpushed_commits sb (Container m)) \<and>
   (\<not> no_uncommitted_changes sb (Container m) \<longrightarrow>
      IsClean sb m =
        (Some (Errorf ''found uncommitted changes in the repo''),
         m\<lparr>Container := Container m @ [git_exec git_status]\<rparr>)) \<and>
   (no_uncommitted_changes sb (Container m) \<and> \<not> has_tracking_branch sb (Container m) \<longrightarrow>
      IsClean sb m =
        (Some (Errorf ''no tracking branch found''),
         m\<lparr>Container := Container m @ [git_exec git_status, git_exec git_push_ref]\<rparr>)) \<and>
   (no_uncommitted_changes sb (Container m) \<and> has_tracking_branch sb (Container m) \<and>
    \<not> no_unpushed_commits sb (Container m) \<longrightarrow>
      IsClean sb m =
        (Some (Errorf ''found unpushed commits in the repo''),
         m\<lparr>Container :=
             Container m @ [git_exec git_status, git_exec git_push_ref, git_exec git_unpushed]\<rparr>)) \<and>
   (no_uncommitted_changes sb (Container m) \<and> has_tracking_branch sb (Container m) \<and>
    no_unpushed_commits sb (Container m) \<longrightarrow>
      IsClean sb m =
        (None,
         m\<lparr>Container :=
             Container m @ [git_exec git_status, git_exec git_push_ref, git_exec git_unpushed]\<rparr>)) \<and>
   distinct [Errorf ''found uncommitted changes in the repo'',
             Errorf ''no tracking branch found'',
             Errorf ''found unpushed commits in the repo'']"
  by (auto simp: IsClean_def Let_def Stdout_def ExitCode_def WithGitExec_eq
      no_uncommitted_changes_def has_tracking_branch_def no_unpushed_commits_def
      split: prod.splits)

theorem IsClean_gate_witness:
  "IsClean untracked_session repo =
     (Some (Errorf ''no tracking branch found''),
      repo\<lparr>Container := Container repo @ [git_exec git_status, git_exec git_push_ref]\<rparr>) \<and>
   fst (IsClean clean_session repo) = None"
proof -
  have 1: "no_uncommitted_changes untracked_session (Container repo)"
    by (simp add: no_uncommitted_changes_def untracked_session_def github_def scripted_def
        reply_def git_exec_def git_status_def git_push_ref_def default_branch_query_def)
  have 2: "\<not> has_tracking_branch untracked_session (Container repo)"
    by (simp add: has_tracking_branch_def untracked_session_def github_def scripted_def
        reply_def git_exec_def git_status_def git_push_ref_def default_branch_query_def)
  have 3: "no_uncommitted_changes clean_session (Container repo)"
    by (simp add: no_uncommitted_changes_def clean_session_def github_def scripted_def
        reply_def git_exec_def git_status_def default_branch_query_def)
  have 4: "has_tracking_branch clean_session (Container repo)"
    by (simp add: has_tracking_branch_def clean_session_def github_def scripted_def
        reply_def git_exec_def git_push_ref_def default_branch_query_def)
  have 5: "no_unpushed_commits clean_session (Container repo)"
    by (simp add: no_unpushed_commits_def clean_session_def github_def scripted_def
        reply_def git_exec_def git_unpushed_def default_branch_query_def)
  from IsClean_gate [of untracked_session repo] IsClean_gate [of clean_session repo]
    1 2 3 4 5
  show ?thesis by blast
qed

section \<open>Signing off\<close>

lemma IsClean_receiver:
  "snd (IsClean sb m) = m\<lparr>Container := Container m @ [git_exec git_status]\<rparr> \<or>
   snd (IsClean sb m) =
     m\<lparr>Container := Container m @ [git_exec git_status, git_exec git_push_ref]\<rparr> \<or>
   snd (IsClean sb m) =
     m\<lparr>Container :=
         Container m @ [git_exec git_status, git_exec git_push_ref, git_exec git_unpushed]\<rparr>"
  by (auto simp: IsClean_def Let_def WithGitExec_eq split: prod.splits)




lemma Create_not_clean:
  assumes "fst (IsClean sb m) = Some e"
  shows "Create sb m = (Some e, '''', snd (IsClean sb m))"
  using assms by (cases "IsClean sb m") (simp add: Create_def)

lemma Create_no_sha:
  assumes "IsClean sb m = (None, m1)" and "Sha sb m1 = ((sha, Some e), m2)"
  shows "Create sb m = (Some e, '''', m2)"
  using assms by (simp add: Create_def)

lemma Create_no_user:
  assumes "IsClean sb m = (None, m1)" and "Sha sb m1 = ((sha, None), m2)"
    and "WhoIs sb m2 = ((user, Some e), m3)"
  shows "Create sb m = (Some e, '''', m3)"
  using assms by (simp add: Create_def)

lemma Create_post:
  assumes "IsClean sb m = (None, m1)" and "Sha sb m1 = ((sha, None), m2)"
    and "WhoIs sb m2 = ((user, None), m3)"
  shows "Create sb m =
    (case Out sb (WithGhExec (status_post sha (CheckName m3) user) m3) of
       (out, Some e) \<Rightarrow>
         (Some (Wrapf (out @ '': '' @ Error e) e), '''',
          WithGhExec (status_post sha (CheckName m3) user) m3)
     | (out, None) \<Rightarrow>
         (None, check_mark @ '' Signed off on '' @ sha @ [CHR 0x0A],
          WithGhExec (status_post sha (CheckName m3) user) m3))"
  using assms by (simp add: Create_def Let_def split: prod.splits option.splits)


lemma git_exec_no_post: "\<not> is_status_post (git_exec args)"
  by (auto simp: git_exec_def elim!: is_status_post.elims)

text \<open>
  C2. When \<open>IsClean\<close> returns an error, \<open>Create\<close> returns that error, prints nothing and
  leaves the receiver as \<open>IsClean\<close> left it: the commands added to the container are the
  first one, two or three git commands of the check, and none of them posts a commit
  status.
\<close>

theorem Create_stops_at_gate:
  assumes "fst (IsClean sb m) = Some e"
  shows "Create sb m = (Some e, '''', snd (IsClean sb m)) \<and>
    (\<exists>cmds. Container (snd (snd (Create sb m))) = Container m @ cmds \<and>
       cmds \<noteq> [] \<and>
       prefix cmds [git_exec git_status, git_exec git_push_ref, git_exec git_unpushed] \<and>
       (\<forall>s \<in> set cmds. \<not> is_status_post s))"
proof -
  have stop: "Create sb m = (Some e, '''', snd (IsClean sb m))"
    using assms by (rule Create_not_clean)
  let ?all = "[git_exec git_status, git_exec git_push_ref, git_exec git_unpushed]"
  have "\<exists>cmds. Container (snd (IsClean sb m)) = Container m @ cmds \<and> cmds \<noteq> [] \<and>
      prefix cmds ?all"
    using IsClean_receiver [of sb m]
  proof (elim disjE)
    assume "snd (IsClean sb m) = m\<lparr>Container := Container m @ [git_exec git_status]\<rparr>"
    then have "Container (snd (IsClean sb m)) = Container m @ [git_exec git_status]"
      by simp
    then show ?thesis by (intro exI [of _ "[git_exec git_status]"]) simp
  next
    assume "snd (IsClean sb m) =
      m\<lparr>Container := Container m @ [git_exec git_status, git_exec git_push_ref]\<rparr>"
    then have "Container (snd (IsClean sb m)) =
        Container m @ [git_exec git_status, git_exec git_push_ref]"
      by simp
    then show ?thesis
      by (intro exI [of _ "[git_exec git_status, git_exec git_push_ref]"]) simp
  next
    assume "snd (IsClean sb m) = m\<lparr>Container := Container m @ ?all\<rparr>"
    then have "Container (snd (IsClean sb m)) = Container m @ ?all"
      by simp
    then show ?thesis by (intro exI [of _ ?all]) simp
  qed
  then obtain cmds where cmds: "Container (snd (IsClean sb m)) = Container m @ cmds"
    "cmds \<noteq> []" "prefix cmds ?all"
    by blast
  have "\<forall>s \<in> set cmds. \<not> is_status_post s"
  proof
    fix s assume "s \<in> set cmds"
    moreover from cmds(3) have "set cmds \<subseteq> set ?all"
      by (rule set_mono_prefix)
    ultimately have "s \<in> set ?all"
      by blast
    then show "\<not> is_status_post s"
      by (auto simp: git_exec_no_post)
  qed
  with stop cmds show ?thesis by auto
qed

theorem Create_stops_at_gate_witness:
  "Create dirty_session repo =
     (Some (Errorf ''found uncommitted changes in the repo''), '''',
      repo\<lparr>Container := Container repo @ [git_exec git_status]\<rparr>)"
proof -
  have "IsClean dirty_session repo =
     (Some (Errorf ''found uncommitted changes in the repo''),
      repo\<lparr>Container := Container repo @ [git_exec git_status]\<rparr>)"
    by (simp add: IsClean_def Let_def Stdout_def WithGitExec_eq dirty_session_def scripted_def
        reply_def git_exec_def)
  with Create_stops_at_gate [of dirty_session repo] show ?thesis by simp
qed


lemma TrimSpace_sha: "TrimSpace ''abc123\<newline>'' = ''abc123''"
  by code_simp

lemma TrimSpace_login: "TrimSpace ''alice\<newline>\<newline>'' = ''alice''"
  by code_simp





text \<open>
  C6. The first stage of \<open>Create\<close> that fails ends it: an error of \<open>IsClean\<close>, of \<open>Sha\<close>
  or of \<open>WhoIs\<close> is returned as it is, nothing is printed, and the receiver is left as
  that stage left it. When the three stages pass and \<open>Out\<close> returns the output \<open>out\<close>
  with the error \<open>e\<close> for the status command, the error of \<open>Create\<close> wraps \<open>e\<close>, and its
  message is \<open>out\<close>, a colon, a space and the message of \<open>e\<close>.
\<close>

theorem Create_first_error:
  "(fst (IsClean sb m) = Some e \<longrightarrow> Create sb m = (Some e, '''', snd (IsClean sb m))) \<and>
   (IsClean sb m = (None, ma) \<and> Sha sb ma = ((sha, Some e), mb) \<longrightarrow>
      Create sb m = (Some e, '''', mb)) \<and>
   (IsClean sb m = (None, ma) \<and> Sha sb ma = ((sha, None), mb) \<and>
    WhoIs sb mb = ((user, Some e), mc) \<longrightarrow>
      Create sb m = (Some e, '''', mc)) \<and>
   (IsClean sb m = (None, ma) \<and> Sha sb ma = ((sha, None), mb) \<and>
    WhoIs sb mb = ((user, None), mc) \<and>
    Out sb (WithGhExec (status_post sha (CheckName mc) user) mc) = (out, Some e) \<longrightarrow>
      (\<exists>w. Create sb m =
             (Some w, '''', WithGhExec (status_post sha (CheckName mc) user) mc) \<and>
           Error w = out @ '': '' @ Error e \<and> Unwrap w = Some e))"
proof (intro conjI impI)
  assume "fst (IsClean sb m) = Some e"
  then show "Create sb m = (Some e, '''', snd (IsClean sb m))"
    by (rule Create_not_clean)
next
  assume "IsClean sb m = (None, ma) \<and> Sha sb ma = ((sha, Some e), mb)"
  then show "Create sb m = (Some e, '''', mb)"
    by (simp add: Create_no_sha)
next
  assume "IsClean sb m = (None, ma) \<and> Sha sb ma = ((sha, None), mb) \<and>
    WhoIs sb mb = ((user, Some e), mc)"
  then show "Create sb m = (Some e, '''', mc)"
    by (simp add: Create_no_user)
next
  assume a: "IsClean sb m = (None, ma) \<and> Sha sb ma = ((sha, None), mb) \<and>
    WhoIs sb mb = ((user, None), mc) \<and>
    Out sb (WithGhExec (status_post sha (CheckName mc) user) mc) = (out, Some e)"
  then have "Create sb m =
      (Some (Wrapf (out @ '': '' @ Error e) e), '''',
       WithGhExec (status_post sha (CheckName mc) user) mc)"
    by (simp add: Create_post [of sb m ma sha mb user mc])
  then show "\<exists>w. Create sb m =
      (Some w, '''', WithGhExec (status_post sha (CheckName mc) user) mc) \<and>
      Error w = out @ '': '' @ Error e \<and> Unwrap w = Some e"
    by simp
qed

lemma rejecting_session_IsClean:
  "IsClean rejecting_session repo =
     (None, repo\<lparr>Container :=
        Container repo @ [git_exec git_status, git_exec git_push_ref, git_exec git_unpushed]\<rparr>)"
  by (simp add: IsClean_def Let_def Stdout_def ExitCode_def WithGitExec_eq rejecting_session_def
      github_def scripted_def reply_def git_exec_def git_status_def git_push_ref_def
      git_unpushed_def default_branch_query_def status_post_def)

lemma rejecting_session_Sha:
  "Sha rejecting_session m =
     ((''abc123'', None), m\<lparr>Container := Container m @ [git_exec [''rev-parse'', ''HEAD'']]\<rparr>)"
  by (simp add: Sha_def Let_def Stdout_def WithGitExec_eq rejecting_session_def github_def
      scripted_def reply_def git_exec_def status_post_def TrimSpace_sha)

lemma rejecting_session_WhoIs:
  "WhoIs rejecting_session m =
     ((''alice'', None),
      m\<lparr>Container := Container m @ [gh_exec [''api'', ''user'', ''--jq'', ''.login'']]\<rparr>)"
  by (simp add: WhoIs_def Out_def Let_def WithGhExec_eq rejecting_session_def github_def
      scripted_def reply_def gh_exec_def status_post_def TrimSpace_login)

lemma show_int_1: "show_int 1 = ''1''"
  by code_simp

lemma rejecting_session_Out:
  "Out rejecting_session (WithGhExec (status_post ''abc123'' ''signoff'' ''alice'') m) =
     (''Bad credentials\<newline>gh: HTTP 401'', Some (Errorf ''exit code 1''))"
  by (simp add: Out_def Let_def WithGhExec_eq rejecting_session_def scripted_def reply_def
      gh_exec_def show_int_1)

theorem Create_first_error_witness:
  "fst (Create rejecting_session repo) =
     Some (Wrapf ''Bad credentials\<newline>gh: HTTP 401: exit code 1'' (Errorf ''exit code 1''))"
proof -
  let ?m1 = "repo\<lparr>Container :=
    Container repo @ [git_exec git_status, git_exec git_push_ref, git_exec git_unpushed]\<rparr>"
  let ?m2 = "?m1\<lparr>Container := Container ?m1 @ [git_exec [''rev-parse'', ''HEAD'']]\<rparr>"
  let ?m3 = "?m2\<lparr>Container :=
    Container ?m2 @ [gh_exec [''api'', ''user'', ''--jq'', ''.login'']]\<rparr>"
  have name: "CheckName ?m3 = ''signoff''"
    by (simp add: repo_def New_def Let_def)
  have out: "Out rejecting_session (WithGhExec (status_post ''abc123'' (CheckName ?m3) ''alice'') ?m3) =
      (''Bad credentials\<newline>gh: HTTP 401'', Some (Errorf ''exit code 1''))"
    unfolding name by (rule rejecting_session_Out)
  from Create_first_error [where sb = rejecting_session and m = repo and ma = ?m1
      and sha = "''abc123''" and mb = ?m2 and user = "''alice''" and mc = ?m3
      and out = "''Bad credentials\<newline>gh: HTTP 401''" and e = "Errorf ''exit code 1''"]
    rejecting_session_IsClean rejecting_session_Sha [of ?m1] rejecting_session_WhoIs [of ?m2] out
  obtain w where "Create rejecting_session repo =
        (Some w, '''', WithGhExec (status_post ''abc123'' (CheckName ?m3) ''alice'') ?m3)"
      and "Error w = ''Bad credentials\<newline>gh: HTTP 401'' @ '': '' @ Error (Errorf ''exit code 1'')"
      and "Unwrap w = Some (Errorf ''exit code 1'')"
    by blast
  then show ?thesis
    by (cases w) simp_all
qed

section \<open>Branch protection\<close>

lemma Install_default:
  assumes "DefaultBranch sb m = ((b, err), mb)"
  shows "Install quote sb '''' m =
    (case err of
       Some e \<Rightarrow> (Some (Wrapf (''could not get the default branch: '' @ Error e) e), '''', mb)
     | None \<Rightarrow>
         if b = '''' then (Some (Errorf ''could not install without a branch name''), '''', mb)
         else
           (case Out sb (WithGhExec (protect b (CheckName mb)) mb) of
              (out, Some e) \<Rightarrow>
                (Some (Wrapf (''could not install signoff check '' @ quote (CheckName mb) @
                         '' to branch '' @ quote b @ '': '' @ Error e @ [CHR 0x0A] @ out) e),
                 '''', WithGhExec (protect b (CheckName mb)) mb)
            | (out, None) \<Rightarrow>
                (None,
                 check_mark @ '' GitHub '' @ CheckName mb @
                   '' branch now requires signoff on check '' @ quote b,
                 WithGhExec (protect b (CheckName mb)) mb)))"
  using assms
  by (simp add: Install_def Let_def WithGhExec_eq split: prod.splits option.splits)

lemma Uninstall_default:
  assumes "DefaultBranch sb m = ((b, err), mb)"
  shows "Uninstall quote sb '''' m =
    (case err of
       Some e \<Rightarrow> (Some (Wrapf (''could not get the default branch: '' @ Error e) e), '''', mb)
     | None \<Rightarrow>
         if b = '''' then (Some (Errorf ''could not uninstall without a branch name''), '''', mb)
         else
           (case Out sb (WithGhExec (unprotect b) mb) of
              (out, Some e) \<Rightarrow>
                (Some (Wrapf (''could not uninstall branch protection for branch '' @
                         quote b @ '': '' @ Error e @ [CHR 0x0A] @ out) e),
                 '''', WithGhExec (unprotect b) mb)
            | (out, None) \<Rightarrow>
                (None,
                 check_mark @ '' GitHub '' @ CheckName mb @
                   '' branch no longer requires signoff'',
                 WithGhExec (unprotect b) mb)))"
  using assms
  by (simp add: Uninstall_def Let_def WithGhExec_eq split: prod.splits option.splits)

lemma protection_path_prefix: "prefix ''/repos/:owner/:repo/branches/'' (protection_path b)"
  by (simp add: protection_path_def)

lemma protection_path_suffix: "suffix ''/protection'' (protection_path b)"
  by (rule suffixI [of _ "''/repos/:owner/:repo/branches/'' @ b"])
     (simp add: protection_path_def)

lemma protect_is_request: "is_protection_request (gh_exec (protect b c))"
  by (simp add: gh_exec_def protect_def protection_path_prefix protection_path_suffix)

lemma unprotect_is_request: "is_protection_request (gh_exec (unprotect b))"
  by (simp add: gh_exec_def unprotect_def protection_path_prefix protection_path_suffix)

lemma default_branch_query_no_request: "\<not> is_protection_request (gh_exec default_branch_query)"
  by (simp add: gh_exec_def default_branch_query_def)

text \<open>
  C5. Called with the empty branch, \<open>Install\<close> and \<open>Uninstall\<close> first add the query of
  the default branch to the container, and that query is no protection request. The
  branch they go on with is \<open>b\<close>, what the engine answers on the standard output of that
  query. When the answer is the empty name without error, each returns its error about
  the missing branch name and leaves the receiver with that query only. When it is a
  name that is not empty, the one command after the query is the protection request for
  that name. When the query fails, its error is returned wrapped and no request is
  added.
\<close>

theorem protection_resolves_branch:
  assumes "Container_Stdout sb (Container m @ [gh_exec default_branch_query]) = (b, err)"
  shows "DefaultBranch sb m =
      ((b, err), m\<lparr>Container := Container m @ [gh_exec default_branch_query]\<rparr>) \<and>
    \<not> is_protection_request (gh_exec default_branch_query) \<and>
    (err = None \<and> b = '''' \<longrightarrow>
       Install quote sb '''' m =
         (Some (Errorf ''could not install without a branch name''), '''',
          m\<lparr>Container := Container m @ [gh_exec default_branch_query]\<rparr>) \<and>
       Uninstall quote sb '''' m =
         (Some (Errorf ''could not uninstall without a branch name''), '''',
          m\<lparr>Container := Container m @ [gh_exec default_branch_query]\<rparr>)) \<and>
    (err = None \<and> b \<noteq> '''' \<longrightarrow>
       Container (snd (snd (Install quote sb '''' m))) =
         Container m @ [gh_exec default_branch_query, gh_exec (protect b (CheckName m))] \<and>
       Container (snd (snd (Uninstall quote sb '''' m))) =
         Container m @ [gh_exec default_branch_query, gh_exec (unprotect b)] \<and>
       is_protection_request (gh_exec (protect b (CheckName m))) \<and>
       is_protection_request (gh_exec (unprotect b))) \<and>
    (\<forall>e. err = Some e \<longrightarrow>
       Install quote sb '''' m =
         (Some (Wrapf (''could not get the default branch: '' @ Error e) e), '''',
          m\<lparr>Container := Container m @ [gh_exec default_branch_query]\<rparr>) \<and>
       Uninstall quote sb '''' m =
         (Some (Wrapf (''could not get the default branch: '' @ Error e) e), '''',
          m\<lparr>Container := Container m @ [gh_exec default_branch_query]\<rparr>))"
proof -
  let ?mb = "m\<lparr>Container := Container m @ [gh_exec default_branch_query]\<rparr>"
  have branch: "DefaultBranch sb m = ((b, err), ?mb)"
    using assms
    by (simp add: DefaultBranch_def Let_def Stdout_def WithGhExec_eq default_branch_query_def)
  have empty: "err = None \<and> b = '''' \<longrightarrow>
       Install quote sb '''' m =
         (Some (Errorf ''could not install without a branch name''), '''', ?mb) \<and>
       Uninstall quote sb '''' m =
         (Some (Errorf ''could not uninstall without a branch name''), '''', ?mb)"
    by (simp add: Install_default [OF branch] Uninstall_default [OF branch])
  have named: "err = None \<and> b \<noteq> '''' \<longrightarrow>
       Container (snd (snd (Install quote sb '''' m))) =
         Container m @ [gh_exec default_branch_query, gh_exec (protect b (CheckName m))] \<and>
       Container (snd (snd (Uninstall quote sb '''' m))) =
         Container m @ [gh_exec default_branch_query, gh_exec (unprotect b)]"
    by (simp add: Install_default [OF branch] Uninstall_default [OF branch] WithGhExec_eq
        split: prod.splits option.splits)
  have failed: "\<forall>e. err = Some e \<longrightarrow>
       Install quote sb '''' m =
         (Some (Wrapf (''could not get the default branch: '' @ Error e) e), '''', ?mb) \<and>
       Uninstall quote sb '''' m =
         (Some (Wrapf (''could not get the default branch: '' @ Error e) e), '''', ?mb)"
    by (simp add: Install_default [OF branch] Uninstall_default [OF branch])
  from branch empty named failed show ?thesis
    using protect_is_request unprotect_is_request default_branch_query_no_request
    by blast
qed

theorem protection_resolves_branch_witness:
  "Install dquote silent_session '''' repo =
     (Some (Errorf ''could not install without a branch name''), '''',
      repo\<lparr>Container := Container repo @ [gh_exec default_branch_query]\<rparr>) \<and>
   Uninstall dquote silent_session '''' repo =
     (Some (Errorf ''could not uninstall without a branch name''), '''',
      repo\<lparr>Container := Container repo @ [gh_exec default_branch_query]\<rparr>) \<and>
   fst (DefaultBranch clean_session repo) = (''main\<newline>'', None) \<and>
   Container (snd (snd (Install dquote clean_session '''' repo))) =
     Container repo @
     [gh_exec default_branch_query, gh_exec (protect ''main\<newline>'' ''signoff'')] \<and>
   Container (snd (snd (Uninstall dquote clean_session '''' repo))) =
     Container repo @ [gh_exec default_branch_query, gh_exec (unprotect ''main\<newline>'')]"
proof -
  have silent: "Container_Stdout silent_session
      (Container repo @ [gh_exec default_branch_query]) = ('''', None)"
    by (simp add: silent_session_def scripted_def reply_def gh_exec_def)
  have clean: "Container_Stdout clean_session
      (Container repo @ [gh_exec default_branch_query]) = (''main\<newline>'', None)"
    by (simp add: clean_session_def github_def scripted_def reply_def gh_exec_def
        default_branch_query_def)
  have name: "CheckName repo = ''signoff''"
    by (simp add: repo_def New_def Let_def)
  from protection_resolves_branch [OF silent, of dquote]
    protection_resolves_branch [OF clean, of dquote] name
  show ?thesis by simp
qed

section \<open>Trimmed results\<close>

declare TrimLeft.simps [simp del] TrimRight.simps [simp del]

lemma space_runes_nonempty: "p \<in> set space_runes \<Longrightarrow> p \<noteq> []"
  by (auto simp: space_runes_def)

lemma leading_space_0: "leading_space s = 0 \<longleftrightarrow> (\<forall>p \<in> set space_runes. \<not> prefix p s)"
proof (cases "find (\<lambda>p. prefix p s) space_runes")
  case None
  then have "\<forall>p \<in> set space_runes. \<not> prefix p s"
    by (simp add: find_None_iff)
  with None show ?thesis
    by (simp add: leading_space_def)
next
  case (Some p)
  then have "p \<in> set space_runes" and "prefix p s"
    by (auto simp: find_Some_iff)
  with Some show ?thesis
    by (auto simp: leading_space_def dest: space_runes_nonempty)
qed

lemma trailing_space_0: "trailing_space s = 0 \<longleftrightarrow> (\<forall>p \<in> set space_runes. \<not> suffix p s)"
proof (cases "find (\<lambda>p. suffix p s) space_runes")
  case None
  then have "\<forall>p \<in> set space_runes. \<not> suffix p s"
    by (simp add: find_None_iff)
  with None show ?thesis
    by (simp add: trailing_space_def)
next
  case (Some p)
  then have "p \<in> set space_runes" and "suffix p s"
    by (auto simp: find_Some_iff)
  with Some show ?thesis
    by (auto simp: trailing_space_def dest: space_runes_nonempty)
qed

lemma TrimLeft_clean: "leading_space (TrimLeft s) = 0"
proof (induction s rule: TrimLeft.induct)
  case (1 s)
  show ?case
  proof (cases "leading_space s = 0")
    case True
    then show ?thesis by (simp add: TrimLeft.simps [of s])
  next
    case False
    with 1 show ?thesis by (simp add: TrimLeft.simps [of s])
  qed
qed

lemma TrimRight_clean: "trailing_space (TrimRight s) = 0"
proof (induction s rule: TrimRight.induct)
  case (1 s)
  show ?case
  proof (cases "trailing_space s = 0")
    case True
    then show ?thesis by (simp add: TrimRight.simps [of s])
  next
    case False
    with 1 show ?thesis by (simp add: TrimRight.simps [of s])
  qed
qed

lemma TrimRight_prefix: "prefix (TrimRight s) s"
proof (induction s rule: TrimRight.induct)
  case (1 s)
  show ?case
  proof (cases "trailing_space s = 0")
    case True
    then show ?thesis by (simp add: TrimRight.simps [of s])
  next
    case False
    with 1 have "prefix (TrimRight (take (length s - trailing_space s) s))
        (take (length s - trailing_space s) s)"
      by simp
    also have "prefix (take (length s - trailing_space s) s) s"
      by (rule take_is_prefix)
    finally show ?thesis
      using False by (simp add: TrimRight.simps [of s])
  qed
qed

lemma TrimSpace_trimmed:
  "leading_space (TrimSpace s) = 0 \<and> trailing_space (TrimSpace s) = 0"
proof
  have "\<not> prefix p (TrimRight (TrimLeft s))" if "p \<in> set space_runes" for p
  proof
    assume "prefix p (TrimRight (TrimLeft s))"
    then have "prefix p (TrimLeft s)"
      using TrimRight_prefix [of "TrimLeft s"] by (rule prefix_order.trans)
    with that TrimLeft_clean [of s] show False
      by (simp add: leading_space_0)
  qed
  then show "leading_space (TrimSpace s) = 0"
    by (simp add: TrimSpace_def leading_space_0)
  show "trailing_space (TrimSpace s) = 0"
    by (simp add: TrimSpace_def TrimRight_clean)
qed

lemma empty_trimmed: "leading_space '''' = 0 \<and> trailing_space '''' = 0"
  by (auto simp: leading_space_0 trailing_space_0 dest: space_runes_nonempty)

lemma Sha_trimmed:
  "leading_space (fst (fst (Sha sb m))) = 0 \<and> trailing_space (fst (fst (Sha sb m))) = 0"
  by (simp add: Sha_def Let_def TrimSpace_trimmed empty_trimmed split: prod.splits)

lemma WhoIs_trimmed:
  "leading_space (fst (fst (WhoIs sb m))) = 0 \<and> trailing_space (fst (fst (WhoIs sb m))) = 0"
  by (simp add: WhoIs_def Let_def TrimSpace_trimmed empty_trimmed split: prod.splits)

text \<open>
  C4. \<open>Sha\<close> and \<open>WhoIs\<close> return trimmed strings (the two lemmas above), and
  \<open>DefaultBranch\<close> does not: it returns the standard output of its query as it is. In
  the session where \<^verbatim>\<open>gh\<close> prints the branch name and a line feed, the result ends with
  the line feed, and \<open>Install\<close> for the default branch asks for the protection of a
  branch whose name ends with it.
\<close>

theorem DefaultBranch_untrimmed:
  "fst (DefaultBranch clean_session repo) = (''main\<newline>'', None) \<and>
   trailing_space (fst (fst (DefaultBranch clean_session repo))) = 1 \<and>
   TrimSpace (fst (fst (DefaultBranch clean_session repo))) = ''main'' \<and>
   Container (snd (snd (Install dquote clean_session '''' repo))) =
     Container repo @
     [gh_exec default_branch_query, gh_exec (protect ''main\<newline>'' ''signoff'')]"
proof -
  have branch: "DefaultBranch clean_session repo =
      ((''main\<newline>'', None),
       repo\<lparr>Container := Container repo @ [gh_exec default_branch_query]\<rparr>)"
    by (simp add: DefaultBranch_def Let_def Stdout_def WithGhExec_eq clean_session_def
        github_def scripted_def reply_def gh_exec_def default_branch_query_def)
  have space: "trailing_space ''main\<newline>'' = 1"
    by code_simp
  have trim: "TrimSpace ''main\<newline>'' = ''main''"
    by code_simp
  have name: "CheckName repo = ''signoff''"
    by (simp add: repo_def New_def Let_def)
  have "Container (snd (snd (Install dquote clean_session '''' repo))) =
      Container repo @
      [gh_exec default_branch_query, gh_exec (protect ''main\<newline>'' ''signoff'')]"
    by (simp add: Install_default [OF branch] WithGhExec_eq name
        split: prod.splits option.splits)
  with branch space trim show ?thesis by simp
qed

section \<open>The pull request of the current branch\<close>

lemma PullRequest_found:
  assumes "DefaultBranch sb m = ((d, None), mb)"
  shows "PullRequest sb m =
    (case Stdout sb
            (WithGhExec [''api'', ''repos/:owner/:repo/pulls'', ''--jq'', pulls_filter d] mb) of
       (out, Some e) \<Rightarrow>
         (('''', Some e),
          WithGhExec [''api'', ''repos/:owner/:repo/pulls'', ''--jq'', pulls_filter d] mb)
     | (out, None) \<Rightarrow>
         ((TrimSpace out, None),
          WithGhExec [''api'', ''repos/:owner/:repo/pulls'', ''--jq'', pulls_filter d] mb))"
  using assms by (simp add: PullRequest_def Let_def split: prod.splits option.splits)

lemma TrimSpace_empty: "TrimSpace '''' = ''''"
  by code_simp

text \<open>
  C9. In \<open>feature_session\<close> the current branch has an open pull request into the
  default branch. The engine answers \<^verbatim>\<open>main\<close> and a line feed for the default branch,
  and \<open>PullRequest\<close> puts that answer, line feed included, into the filter on the base
  reference. No pull request has that base, so the list comes back empty and
  \<open>PullRequest\<close> returns the empty string without error, although the pull request is
  the one the filter on the name \<^verbatim>\<open>main\<close> selects. The filter does not mention the head
  of a pull request either.
\<close>

theorem PullRequest_misses_pull:
  \<open>Container_Stdout feature_session (Container repo @ [gh_exec default_branch_query]) =
     (''main\<newline>'', None) \<and>
   Container (snd (PullRequest feature_session repo)) =
     Container repo @
     [gh_exec default_branch_query,
      gh_exec [''api'', ''repos/:owner/:repo/pulls'', ''--jq'',
        ''.[] | select(.state == "open") | select(.base.ref == "main\<newline>") | .html_url'']] \<and>
   Container_Stdout feature_session (Container (snd (PullRequest feature_session repo))) =
     ('''', None) \<and>
   fst (PullRequest feature_session repo) = ('''', None) \<and>
   pulls_reply feature_pulls (pulls_filter ''main'') =
     ''https://github.com/eunomie/daggerverse/pull/7\<newline>'' \<and>
   \<not> sublist ''head'' (pulls_filter ''main\<newline>'')\<close>
proof -
  let ?mb = "repo\<lparr>Container := Container repo @ [gh_exec default_branch_query]\<rparr>"
  let ?list = "[''api'', ''repos/:owner/:repo/pulls'', ''--jq'', pulls_filter ''main\<newline>'']"
  have answer: "Container_Stdout feature_session
      (Container repo @ [gh_exec default_branch_query]) = (''main\<newline>'', None)"
    by (simp add: feature_session_def hosting_def hosting_reply_def gh_exec_def)
  then have branch: "DefaultBranch feature_session repo = ((''main\<newline>'', None), ?mb)"
    by (simp add: DefaultBranch_def Let_def Stdout_def WithGhExec_eq default_branch_query_def)
  have differ: "pulls_filter ''main\<newline>'' \<noteq> pulls_filter ''main''"
    by (simp add: pulls_filter_def)
  have listed: "Stdout feature_session (WithGhExec ?list ?mb) = ('''', None)"
    using differ
    by (simp add: Stdout_def WithGhExec_eq feature_session_def hosting_def hosting_reply_def
        gh_exec_def default_branch_query_def pulls_reply_def feature_pulls_def)
  have result: "PullRequest feature_session repo = (('''', None), WithGhExec ?list ?mb)"
    by (simp add: PullRequest_found [OF branch] listed TrimSpace_empty)
  have chain: \<open>Container (WithGhExec ?list ?mb) =
     Container repo @
     [gh_exec default_branch_query,
      gh_exec [''api'', ''repos/:owner/:repo/pulls'', ''--jq'',
        ''.[] | select(.state == "open") | select(.base.ref == "main\<newline>") | .html_url'']]\<close>
    by (simp add: WithGhExec_eq pulls_filter_def)
  have empty: "Container_Stdout feature_session (Container (WithGhExec ?list ?mb)) = ('''', None)"
    using listed by (simp add: Stdout_def)
  have found: "pulls_reply feature_pulls (pulls_filter ''main'') =
      ''https://github.com/eunomie/daggerverse/pull/7\<newline>''"
    by (simp add: pulls_reply_def feature_pulls_def)
  have nohead: "\<not> sublist ''head'' (pulls_filter ''main\<newline>'')"
    by code_simp
  have issued: \<open>Container (snd (PullRequest feature_session repo)) =
     Container repo @
     [gh_exec default_branch_query,
      gh_exec [''api'', ''repos/:owner/:repo/pulls'', ''--jq'',
        ''.[] | select(.state == "open") | select(.base.ref == "main\<newline>") | .html_url'']]\<close>
    using chain by (simp only: result snd_conv)
  have printed: "Container_Stdout feature_session
      (Container (snd (PullRequest feature_session repo))) = ('''', None)"
    using empty by (simp only: result snd_conv)
  have returned: "fst (PullRequest feature_session repo) = ('''', None)"
    by (simp only: result fst_conv)
  show ?thesis
    by (rule conjI [OF answer conjI [OF issued conjI [OF printed
          conjI [OF returned conjI [OF found nohead]]]]])
qed

section \<open>Rendering markdown\<close>

text \<open>
  C7. When reading the file fails with the error \<open>e\<close>, \<open>ReadMe\<close> returns the empty
  string and the error that wraps \<open>e\<close> under the message "could not read README.md: "
  followed by the message of \<open>e\<close>, and nothing else. When reading succeeds, the results
  of \<open>ReadMe\<close> are the results of \<open>DisplayMarkdown\<close> on the contents, a rendering error
  included, as it is. So an error of \<open>ReadMe\<close> that is not an error of the rendering of
  the contents comes exactly when reading fails, and where the rendering returns no
  error \<open>ReadMe\<close> returns an error exactly when reading fails.
\<close>

theorem ReadMe_result:
  "(\<forall>e. snd (Contents file) = Some e \<longrightarrow>
      ReadMe Render file r =
        (r = ('''', Some (Wrapf (''could not read README.md: '' @ Error e) e)))) \<and>
   (snd (Contents file) = None \<longrightarrow>
      ReadMe Render file r = DisplayMarkdown Render (fst (Contents file)) r) \<and>
   (ReadMe Render file r \<longrightarrow>
      (snd r \<noteq> None) =
        (snd (Contents file) \<noteq> None \<or>
         DisplayMarkdown Render (fst (Contents file)) r \<and> snd r \<noteq> None)) \<and>
   ((\<forall>r'. DisplayMarkdown Render (fst (Contents file)) r' \<longrightarrow> snd r' = None) \<and>
    ReadMe Render file r \<longrightarrow>
      (snd r \<noteq> None) = (snd (Contents file) \<noteq> None))"
proof (cases "Contents file")
  case (Pair c err)
  show ?thesis
  proof (cases err)
    case None
    with Pair show ?thesis
      by (cases r) (auto simp: ReadMe_def)
  next
    case (Some e)
    with Pair show ?thesis
      by (auto simp: ReadMe_def)
  qed
qed

theorem ReadMe_result_witness:
  "ReadMe echo_render missing_file
     ('''', Some (Wrapf ''could not read README.md: no such file'' (External ''no such file''))) \<and>
   ReadMe echo_render readme_file (''dark: # daggerverse'', None) \<and>
   \<not> (\<exists>r. ReadMe echo_render readme_file r \<and> snd r \<noteq> None)"
proof (intro conjI notI)
  have missing: "snd (Contents missing_file) = Some (External ''no such file'')"
    by (simp add: missing_file_def)
  have "ReadMe echo_render missing_file r =
      (r = ('''', Some (Wrapf (''could not read README.md: '' @ Error (External ''no such file''))
        (External ''no such file''))))" for r
    using ReadMe_result [of missing_file echo_render r] missing by blast
  then show "ReadMe echo_render missing_file
     ('''', Some (Wrapf ''could not read README.md: no such file'' (External ''no such file'')))"
    by simp
next
  have readable: "snd (Contents readme_file) = None"
    by (simp add: readme_file_def)
  have rendered:
    "DisplayMarkdown echo_render (fst (Contents readme_file)) (''dark: # daggerverse'', None)"
    by (simp add: readme_file_def DisplayMarkdown_def echo_render_def)
  have "ReadMe echo_render readme_file (''dark: # daggerverse'', None) =
      DisplayMarkdown echo_render (fst (Contents readme_file)) (''dark: # daggerverse'', None)"
    using ReadMe_result [of readme_file echo_render "(''dark: # daggerverse'', None)"] readable
    by blast
  with rendered show "ReadMe echo_render readme_file (''dark: # daggerverse'', None)"
    by blast
next
  assume "\<exists>r. ReadMe echo_render readme_file r \<and> snd r \<noteq> None"
  then obtain r where r: "ReadMe echo_render readme_file r" and err: "snd r \<noteq> None"
    by blast
  have readable: "snd (Contents readme_file) = None"
    by (simp add: readme_file_def)
  have quiet: "\<forall>r'. DisplayMarkdown echo_render (fst (Contents readme_file)) r' \<longrightarrow> snd r' = None"
    by (simp add: DisplayMarkdown_def echo_render_def)
  have "(snd r \<noteq> None) = (snd (Contents readme_file) \<noteq> None)"
    using ReadMe_result [of readme_file echo_render r] quiet r by blast
  with err readable show False
    by blast
qed

end
